theory Spec2Isabelle
  imports Main "HOL-Library.Word" "HOL-Library.Sublist"
begin

section \<open>Entity model (main.go, lines 20--54)\<close>

text \<open>
  \<^verbatim>\<open>uuid.UUID\<close> is a 16-byte array; its zero value is all zero bytes (\<^verbatim>\<open>uuid.Nil\<close>).
  \<^verbatim>\<open>float64\<close> is kept as its 64-bit pattern: the zero value \<^verbatim>\<open>0.0\<close> is the zero word, and
  the two floating-point operations the code uses (conversion from \<^verbatim>\<open>int\<close> and multiplication)
  are parameters, since IEEE arithmetic is not modelled. \<^verbatim>\<open>time.Time\<close> is an instant on the
  nanosecond scale.
\<close>

type_synonym uuid = "128 word"
type_synonym float64 = "64 word"
type_synonym time = int

record float_ops =
  f64_of_int :: "int \<Rightarrow> float64"
  f64_mul :: "float64 \<Rightarrow> float64 \<Rightarrow> float64"

text \<open>
  The relation fields of the Go structs (\<^verbatim>\<open>Orders\<close>, \<^verbatim>\<open>Reviews\<close>, \<^verbatim>\<open>User\<close>, \<^verbatim>\<open>Product\<close>) are
  never assigned by the program and stay \<^verbatim>\<open>nil\<close>; the records keep the column fields.
\<close>

record User =
  ID :: uuid
  Name :: string
  Address :: string

record Product =
  ID :: uuid
  Name :: string
  Description :: string
  Price :: float64

record Order =
  ID :: uuid
  UserID :: uuid
  ProductID :: uuid
  Quantity :: int
  TotalPrice :: float64
  Date :: time

record Review =
  ID :: uuid
  ProductID :: uuid
  UserID :: uuid
  Rating :: int
  Content :: string

text \<open>The zero values that \<^verbatim>\<open>var product Product\<close> and \<^verbatim>\<open>var user User\<close> declare.\<close>

definition zero_Product :: Product where
  "zero_Product = \<lparr>Product.ID = 0, Product.Name = [], Product.Description = [], Product.Price = 0\<rparr>"

definition zero_User :: User where
  "zero_User = \<lparr>User.ID = 0, User.Name = [], User.Address = []\<rparr>"

section \<open>Errors, store calls and observable events\<close>

text \<open>
  The errors a go-pg call returns: \<^verbatim>\<open>pg.ErrNoRows\<close> (the spec's NotFound),
  \<^verbatim>\<open>pg.ErrMultiRows\<close>, or any other error with its message (constraint violations,
  connection and protocol failures).
\<close>

datatype error = ErrNoRows | ErrMultiRows | PgError string

fun Error_text :: "error \<Rightarrow> string" where
  "Error_text ErrNoRows = ''pg: no rows in result set''"
| "Error_text ErrMultiRows = ''pg: multiple rows in result set''"
| "Error_text (PgError m) = m"

text \<open>
  The five queries of the handlers, with the parameter bound to \<^verbatim>\<open>?\<close>:
  \<^item> \<open>SelectRandomProduct\<close>: \<^verbatim>\<open>SELECT * FROM products ORDER BY RANDOM() LIMIT 1\<close>
  \<^item> \<open>SelectRandomUser\<close>: \<^verbatim>\<open>SELECT * FROM users ORDER BY RANDOM() LIMIT 1\<close>
  \<^item> \<open>CountOrders p\<close>: \<^verbatim>\<open>SELECT COUNT(*) FROM orders WHERE product_id = ?\<close>
  \<^item> \<open>CountDistinctUsers p\<close>: \<^verbatim>\<open>SELECT COUNT(DISTINCT user_id) FROM orders WHERE product_id = ?\<close>
  \<^item> \<open>SelectReviews p\<close>: \<^verbatim>\<open>SELECT u.name as username, r.rating, r.content FROM reviews r
    JOIN users u ON r.user_id = u.id WHERE r.product_id = ?\<close>
\<close>

datatype query =
    SelectRandomProduct
  | SelectRandomUser
  | CountOrders uuid
  | CountDistinctUsers uuid
  | SelectReviews uuid

text \<open>The five statements of \<^verbatim>\<open>setupDatabase\<close>, in the order of the source.\<close>

datatype ddl =
    CreateExtension
  | CreateUsersTable
  | CreateProductsTable
  | CreateOrdersTable
  | CreateReviewsTable

text \<open>The anonymous row struct of \<^verbatim>\<open>handleDBRead\<close> and the two template data structs.\<close>

record ReviewLine =
  Username :: string
  Rating :: int
  Content :: string

record ReadData =
  ProductName :: string
  OrderCount :: int
  UniqueUserCount :: int
  Reviews :: "ReviewLine list"

record WriteData =
  ProductName :: string
  UserName :: string
  OrderQuantity :: int
  OrderTotalPrice :: float64
  ReviewRating :: int
  ReviewContent :: string

datatype view = ReadView ReadData | WriteView WriteData

datatype logarg = ArgErr error | ArgInt int | ArgDB

text \<open>
  Everything a function does to the outside, in program order: a log line (format and
  arguments), a store call, and the calls on the \<^verbatim>\<open>http.ResponseWriter\<close>.
\<close>

datatype event =
    Log string "logarg list"
  | Exec ddl
  | Query query
  | InsertOrder Order
  | InsertReview Review
  | InsertUsers "User list"
  | InsertProducts "Product list"
  | InsertOrders "Order list"
  | InsertReviews "Review list"
  | WriteHeader nat
  | Write string
  | ExecuteTemplate string view

text \<open>
  \<^verbatim>\<open>if err != nil { log.Printf(fmt, err) }\<close>, the shape of every error check that only logs.
\<close>

definition log_if_err :: "string \<Rightarrow> error option \<Rightarrow> event list" where
  "log_if_err fmt err = (case err of None \<Rightarrow> [] | Some e \<Rightarrow> [Log fmt [ArgErr e]])"

definition err_of :: "error + 'a \<Rightarrow> error option" where
  "err_of r = (case r of Inl e \<Rightarrow> Some e | Inr _ \<Rightarrow> None)"

text \<open>
  \<^verbatim>\<open>gofakeit.Number(min, max)\<close>: \<^verbatim>\<open>min\<close> when the bounds are equal, else a value of the
  closed range between the two bounds (swapped when out of order), drawn from the raw
  random number \<open>r\<close>.
\<close>

definition Number :: "int \<Rightarrow> int \<Rightarrow> nat \<Rightarrow> int" where
  "Number lo hi r =
     (if lo = hi then lo
      else let a = min lo hi; b = max lo hi in a + int (r mod nat (b - a + 1)))"

section \<open>Observations on a trace\<close>

fun queries :: "event list \<Rightarrow> query list" where
  "queries [] = []"
| "queries (Query q # t) = q # queries t"
| "queries (_ # t) = queries t"

text \<open>The store writes of a trace (single-row and bulk inserts), in order.\<close>

fun is_insert :: "event \<Rightarrow> bool" where
  "is_insert (InsertOrder _) = True"
| "is_insert (InsertReview _) = True"
| "is_insert (InsertUsers _) = True"
| "is_insert (InsertProducts _) = True"
| "is_insert (InsertOrders _) = True"
| "is_insert (InsertReviews _) = True"
| "is_insert _ = False"

definition inserts :: "event list \<Rightarrow> event list" where
  "inserts t = filter is_insert t"

text \<open>
  The table and the number of rows of every insert of a trace, in order (go-pg names the
  table of a model after its struct: \<^verbatim>\<open>users\<close>, \<^verbatim>\<open>products\<close>, \<^verbatim>\<open>orders\<close>, \<^verbatim>\<open>reviews\<close>).
\<close>

fun written :: "event list \<Rightarrow> (string \<times> nat) list" where
  "written [] = []"
| "written (InsertOrder _ # t) = (''orders'', 1) # written t"
| "written (InsertReview _ # t) = (''reviews'', 1) # written t"
| "written (InsertUsers us # t) = (''users'', length us) # written t"
| "written (InsertProducts ps # t) = (''products'', length ps) # written t"
| "written (InsertOrders os # t) = (''orders'', length os) # written t"
| "written (InsertReviews rs # t) = (''reviews'', length rs) # written t"
| "written (_ # t) = written t"

text \<open>The order rows and the review rows a trace submits, in order.\<close>

fun order_rows :: "event list \<Rightarrow> Order list" where
  "order_rows [] = []"
| "order_rows (InsertOrder ord # t) = ord # order_rows t"
| "order_rows (InsertOrders os # t) = os @ order_rows t"
| "order_rows (_ # t) = order_rows t"

fun review_rows :: "event list \<Rightarrow> Review list" where
  "review_rows [] = []"
| "review_rows (InsertReview r # t) = r # review_rows t"
| "review_rows (InsertReviews rs # t) = rs @ review_rows t"
| "review_rows (_ # t) = review_rows t"

fun logged_errors :: "event list \<Rightarrow> error list" where
  "logged_errors [] = []"
| "logged_errors (Log _ [ArgErr e] # t) = e # logged_errors t"
| "logged_errors (_ # t) = logged_errors t"

fun renders :: "event list \<Rightarrow> (string \<times> view) list" where
  "renders [] = []"
| "renders (ExecuteTemplate n v # t) = (n, v) # renders t"
| "renders (_ # t) = renders t"

fun writes :: "event list \<Rightarrow> string list" where
  "writes [] = []"
| "writes (Write b # t) = b # writes t"
| "writes (_ # t) = writes t"

text \<open>
  The status the caller receives (net/http): the first \<^verbatim>\<open>WriteHeader\<close> decides; a write to
  the body before any \<^verbatim>\<open>WriteHeader\<close> sends 200, and so does returning without writing.
\<close>

fun status_code :: "event list \<Rightarrow> nat" where
  "status_code [] = 200"
| "status_code (WriteHeader c # _) = c"
| "status_code (Write _ # _) = 200"
| "status_code (ExecuteTemplate _ _ # _) = 200"
| "status_code (_ # t) = status_code t"

section \<open>The write workload: \<^verbatim>\<open>handleDBWrite\<close> (main.go, lines 214--283)\<close>

text \<open>
  What \<^verbatim>\<open>QueryOneContext\<close> does to its destination struct: it scans the row into it
  (\<open>Scanned\<close>); it finds no row, returns \<^verbatim>\<open>pg.ErrNoRows\<close> and leaves the struct untouched
  (\<open>NoRows\<close>); or it returns another error and leaves the struct either untouched
  (\<open>Failed e None\<close>) or holding what was scanned before the error, as with
  \<^verbatim>\<open>pg.ErrMultiRows\<close> (\<open>Failed e (Some row)\<close>).
\<close>

datatype 'a sampled = Scanned 'a | NoRows | Failed error "'a option"

fun sample_err :: "'a sampled \<Rightarrow> error option" where
  "sample_err (Scanned _) = None"
| "sample_err NoRows = Some ErrNoRows"
| "sample_err (Failed e _) = Some e"

text \<open>The destination after the call, from its value \<open>dst\<close> before the call.\<close>

fun scan_into :: "'a \<Rightarrow> 'a sampled \<Rightarrow> 'a" where
  "scan_into dst (Scanned row) = row"
| "scan_into dst NoRows = dst"
| "scan_into dst (Failed e None) = dst"
| "scan_into dst (Failed e (Some row)) = row"

text \<open>What the store and the random generators answer during one invocation.\<close>

record write_env =
  w_product :: "Product sampled"
  w_user :: "User sampled"
  w_quantity :: nat
  w_now :: time
  w_insert_order :: "Order \<Rightarrow> error option"
  w_rating :: nat
  w_paragraph :: string
  w_insert_review :: "Review \<Rightarrow> error option"

definition handleDBWrite :: "float_ops \<Rightarrow> write_env \<Rightarrow> event list" where
  "handleDBWrite fp env =
    (let product = scan_into zero_Product (w_product env);
         user = scan_into zero_User (w_user env);
         quantity = Number 1 5 (w_quantity env);
         order = \<lparr>Order.ID = 0,
                  Order.UserID = User.ID user,
                  Order.ProductID = Product.ID product,
                  Order.Quantity = quantity,
                  Order.TotalPrice = f64_mul fp (f64_of_int fp quantity) (Product.Price product),
                  Order.Date = w_now env\<rparr>;
         review = \<lparr>Review.ID = 0,
                   Review.ProductID = Product.ID product,
                   Review.UserID = User.ID user,
                   Review.Rating = Number 1 100 (w_rating env),
                   Review.Content = w_paragraph env\<rparr>;
         templateData = \<lparr>WriteData.ProductName = Product.Name product,
                         WriteData.UserName = User.Name user,
                         WriteData.OrderQuantity = Order.Quantity order,
                         WriteData.OrderTotalPrice = Order.TotalPrice order,
                         WriteData.ReviewRating = Review.Rating review,
                         WriteData.ReviewContent = Review.Content review\<rparr>
     in [Query SelectRandomProduct]
        @ log_if_err ''error selecting random product: %v'' (sample_err (w_product env))
        @ [Query SelectRandomUser]
        @ log_if_err ''error selecting random user: %v'' (sample_err (w_user env))
        @ [InsertOrder order]
        @ log_if_err ''error inserting new order: %v'' (w_insert_order env order)
        @ [InsertReview review]
        @ log_if_err ''error inserting new review: %v'' (w_insert_review env review)
        @ [ExecuteTemplate ''write.html'' (WriteView templateData)])"

section \<open>The read workload: \<^verbatim>\<open>handleDBRead\<close> (main.go, lines 129--211)\<close>

text \<open>
  The answers of the store during one invocation; the three dependent queries answer for
  the product id they are given.
\<close>

record read_env =
  r_product :: "error + Product"
  r_order_count :: "uuid \<Rightarrow> error + int"
  r_unique_users :: "uuid \<Rightarrow> error + int"
  r_reviews :: "uuid \<Rightarrow> error + ReviewLine list"

definition handleDBRead :: "read_env \<Rightarrow> event list" where
  "handleDBRead env =
     Query SelectRandomProduct #
     (case r_product env of
        Inl err \<Rightarrow> [Log ''error selecting random product: %v'' [ArgErr err], WriteHeader 500]
      | Inr product \<Rightarrow>
          Query (CountOrders (Product.ID product)) #
          (case r_order_count env (Product.ID product) of
             Inl err \<Rightarrow> [Log ''error counting orders: %v'' [ArgErr err], WriteHeader 500]
           | Inr orderCount \<Rightarrow>
               Query (CountDistinctUsers (Product.ID product)) #
               (case r_unique_users env (Product.ID product) of
                  Inl err \<Rightarrow>
                    [Log ''error counting unique users: %v'' [ArgErr err], WriteHeader 500]
                | Inr uniqueUserCount \<Rightarrow>
                    Query (SelectReviews (Product.ID product)) #
                    (case r_reviews env (Product.ID product) of
                       Inl err \<Rightarrow>
                         [Log ''error fetching reviews: %v'' [ArgErr err], WriteHeader 500]
                     | Inr reviews \<Rightarrow>
                         [ExecuteTemplate ''read.html''
                            (ReadView \<lparr>ReadData.ProductName = Product.Name product,
                                       ReadData.OrderCount = orderCount,
                                       ReadData.UniqueUserCount = uniqueUserCount,
                                       ReadData.Reviews = reviews\<rparr>)]))))"

section \<open>Schema setup: \<^verbatim>\<open>setupDatabase\<close> and \<^verbatim>\<open>handleFirstRun\<close> (main.go, lines 285--373)\<close>

record setup_env =
  exec_result :: "ddl \<Rightarrow> error option"

definition setupDatabase :: "setup_env \<Rightarrow> event list \<times> error option" where
  "setupDatabase env =
     ([Log ''setupDatabase: got database %v'' [ArgDB]]
      @ [Exec CreateExtension]
      @ log_if_err ''error creating uuid-ossp extension: %v'' (exec_result env CreateExtension)
      @ [Exec CreateUsersTable]
      @ log_if_err ''error creating users table: %v'' (exec_result env CreateUsersTable)
      @ [Exec CreateProductsTable]
      @ log_if_err ''error creating products table: %v'' (exec_result env CreateProductsTable)
      @ [Exec CreateOrdersTable]
      @ log_if_err ''error creating orders table: %v'' (exec_result env CreateOrdersTable)
      @ [Exec CreateReviewsTable]
      @ log_if_err ''error creating reviews table: %v'' (exec_result env CreateReviewsTable)
      @ [Log ''Database schema created successfully'' []],
      None)"

text \<open>
  \<^verbatim>\<open>http.Error(w, msg, code)\<close> writes the header with \<open>code\<close> and then the message and a
  newline.
\<close>

definition http_Error :: "string \<Rightarrow> nat \<Rightarrow> event list" where
  "http_Error msg code = [WriteHeader code, Write (msg @ [CHR 0x0A])]"

definition handleFirstRun :: "setup_env \<Rightarrow> event list" where
  "handleFirstRun env =
     (case setupDatabase env of
        (t, err) \<Rightarrow>
          t @ (case err of None \<Rightarrow> [] | Some e \<Rightarrow> http_Error (Error_text e) 500)
            @ [WriteHeader 200, Write ''Database created successfully''])"

subsection \<open>The reviews table of \<^verbatim>\<open>CreateReviewsTable\<close> (main.go, lines 359--365)\<close>

datatype sqltype = UUID | TEXT | INTEGER | NUMERIC nat nat | TIMESTAMPTZ

text \<open>\<open>CHECK_ge_le c lo hi\<close> is \<^verbatim>\<open>CHECK (c >= lo AND c <= hi)\<close>.\<close>

datatype constraint =
    PRIMARY_KEY
  | DEFAULT_uuid_generate_v4
  | NOT_NULL
  | REFERENCES string string
  | CHECK_ge_le string int int

record column =
  col_name :: string
  col_type :: sqltype
  col_constraints :: "constraint list"

definition reviews_table :: "column list" where
  "reviews_table =
     [\<lparr>col_name = ''id'', col_type = UUID,
        col_constraints = [PRIMARY_KEY, DEFAULT_uuid_generate_v4]\<rparr>,
      \<lparr>col_name = ''product_id'', col_type = UUID,
        col_constraints = [NOT_NULL, REFERENCES ''products'' ''id'']\<rparr>,
      \<lparr>col_name = ''user_id'', col_type = UUID,
        col_constraints = [NOT_NULL, REFERENCES ''users'' ''id'']\<rparr>,
      \<lparr>col_name = ''rating'', col_type = INTEGER,
        col_constraints = [NOT_NULL, CHECK_ge_le ''rating'' 0 100]\<rparr>,
      \<lparr>col_name = ''content'', col_type = TEXT,
        col_constraints = [NOT_NULL]\<rparr>]"

text \<open>
  Whether an integer value (\<open>None\<close> is SQL's NULL) passes one constraint, as far as the
  constraint speaks about the value alone: NOT NULL rejects NULL, a CHECK rejects a value
  for which it is false (it lets NULL pass).
\<close>

fun int_passes :: "constraint \<Rightarrow> int option \<Rightarrow> bool" where
  "int_passes NOT_NULL v = (v \<noteq> None)"
| "int_passes (CHECK_ge_le _ lo hi) v = (case v of None \<Rightarrow> True | Some x \<Rightarrow> lo \<le> x \<and> x \<le> hi)"
| "int_passes _ v = True"

definition column_accepts :: "column \<Rightarrow> int option \<Rightarrow> bool" where
  "column_accepts c v = list_all (\<lambda>k. int_passes k v) (col_constraints c)"

definition rating_accepted :: "int option \<Rightarrow> bool" where
  "rating_accepted v =
     (case find (\<lambda>c. col_name c = ''rating'') reviews_table of
        None \<Rightarrow> False
      | Some c \<Rightarrow> col_type c = INTEGER \<and> column_accepts c v)"

section \<open>Seeding: \<^verbatim>\<open>seedDatabase\<close> and \<^verbatim>\<open>handleSeedDB\<close> (main.go, lines 295--303, 375--444)\<close>

text \<open>
  What the random generators and the store answer during one run. The generator fields
  give the value of the call in loop iteration \<open>i\<close>; the fields for \<^verbatim>\<open>rand.Intn\<close> and
  \<^verbatim>\<open>gofakeit.Number\<close> give the raw random number the result is drawn from. A bulk insert of
  users or products either fails or returns the ids the store generated (the \<open>i\<close>-th id is
  written into the \<open>i\<close>-th element of the slice, whose \<^verbatim>\<open>ID\<close> was the zero value); the ids
  returned into orders and reviews are never read.
\<close>

record seed_env =
  s_Name :: "nat \<Rightarrow> string"
  s_Street :: "nat \<Rightarrow> string"
  s_City :: "nat \<Rightarrow> string"
  s_Country :: "nat \<Rightarrow> string"
  s_insert_users :: "error + (nat \<Rightarrow> uuid)"
  s_ProductName :: "nat \<Rightarrow> string"
  s_ProductDescription :: "nat \<Rightarrow> string"
  s_Price :: "nat \<Rightarrow> float64"
  s_insert_products :: "error + (nat \<Rightarrow> uuid)"
  s_order_user :: "nat \<Rightarrow> nat"
  s_order_product :: "nat \<Rightarrow> nat"
  s_order_quantity :: "nat \<Rightarrow> nat"
  s_order_date :: "nat \<Rightarrow> time"
  s_insert_orders :: "error option"
  s_review_user :: "nat \<Rightarrow> nat"
  s_review_product :: "nat \<Rightarrow> nat"
  s_review_rating :: "nat \<Rightarrow> nat"
  s_review_paragraph :: "nat \<Rightarrow> string"
  s_insert_reviews :: "error option"

datatype 'a outcome = Panicked | Returned 'a

text \<open>\<^verbatim>\<open>rand.Intn(n)\<close> panics when \<open>n \<le> 0\<close>; indexing a slice panics out of range.\<close>

definition Intn :: "nat \<Rightarrow> nat \<Rightarrow> nat option" where
  "Intn n r = (if n = 0 then None else Some (r mod n))"

definition index :: "'a list \<Rightarrow> nat \<Rightarrow> 'a option" where
  "index xs i = (if i < length xs then Some (xs ! i) else None)"

text \<open>\<^verbatim>\<open>xs[rand.Intn(len(xs))]\<close>\<close>

definition pick :: "'a list \<Rightarrow> nat \<Rightarrow> 'a option" where
  "pick xs r = (case Intn (length xs) r of None \<Rightarrow> None | Some i \<Rightarrow> index xs i)"

text \<open>
  \<^verbatim>\<open>for i := range xs { xs[i] = body(i) }\<close> over a slice made with length \<open>n\<close>: the elements
  in order, or a panic if an iteration panics.
\<close>

definition fill :: "nat \<Rightarrow> (nat \<Rightarrow> 'a option) \<Rightarrow> 'a list option" where
  "fill n body = those (map body [0..<n])"

definition gen_users :: "seed_env \<Rightarrow> User list" where
  "gen_users env =
     map (\<lambda>i. \<lparr>User.ID = 0,
               User.Name = s_Name env i,
               User.Address = s_Street env i @ '', '' @ s_City env i @ '', '' @ s_Country env i\<rparr>)
       [0..<2000]"

definition gen_products :: "seed_env \<Rightarrow> Product list" where
  "gen_products env =
     map (\<lambda>i. \<lparr>Product.ID = 0,
               Product.Name = s_ProductName env i,
               Product.Description = s_ProductDescription env i,
               Product.Price = s_Price env i\<rparr>)
       [0..<100]"

text \<open>The slices as they are in memory after their bulk insert has returned.\<close>

definition seed_users :: "seed_env \<Rightarrow> User list" where
  "seed_users env =
     (case s_insert_users env of
        Inl _ \<Rightarrow> gen_users env
      | Inr ids \<Rightarrow> map (\<lambda>(i, u). u\<lparr>User.ID := ids i\<rparr>) (enumerate 0 (gen_users env)))"

definition seed_products :: "seed_env \<Rightarrow> Product list" where
  "seed_products env =
     (case s_insert_products env of
        Inl _ \<Rightarrow> gen_products env
      | Inr ids \<Rightarrow> map (\<lambda>(i, p). p\<lparr>Product.ID := ids i\<rparr>) (enumerate 0 (gen_products env)))"

text \<open>
  The user and product rows the store holds from this run: a bulk insert is a single
  outcome, so a failed one leaves none, and a successful one leaves the rows of the slice
  with the ids it returned.
\<close>

definition stored_users :: "seed_env \<Rightarrow> User list" where
  "stored_users env = (case s_insert_users env of Inl _ \<Rightarrow> [] | Inr _ \<Rightarrow> seed_users env)"

definition stored_products :: "seed_env \<Rightarrow> Product list" where
  "stored_products env =
     (case s_insert_products env of Inl _ \<Rightarrow> [] | Inr _ \<Rightarrow> seed_products env)"

definition seed_order :: "float_ops \<Rightarrow> seed_env \<Rightarrow> nat \<Rightarrow> Order option" where
  "seed_order fp env i =
     (case pick (seed_users env) (s_order_user env i) of
        None \<Rightarrow> None
      | Some user \<Rightarrow>
          (case pick (seed_products env) (s_order_product env i) of
             None \<Rightarrow> None
           | Some product \<Rightarrow>
               (let quantity = Number 1 10 (s_order_quantity env i)
                in Some \<lparr>Order.ID = 0,
                         Order.UserID = User.ID user,
                         Order.ProductID = Product.ID product,
                         Order.Quantity = quantity,
                         Order.TotalPrice =
                           f64_mul fp (f64_of_int fp quantity) (Product.Price product),
                         Order.Date = s_order_date env i\<rparr>)))"

definition seed_review :: "seed_env \<Rightarrow> nat \<Rightarrow> Review option" where
  "seed_review env i =
     (case pick (seed_users env) (s_review_user env i) of
        None \<Rightarrow> None
      | Some user \<Rightarrow>
          (case pick (seed_products env) (s_review_product env i) of
             None \<Rightarrow> None
           | Some product \<Rightarrow>
               Some \<lparr>Review.ID = 0,
                     Review.ProductID = Product.ID product,
                     Review.UserID = User.ID user,
                     Review.Rating = Number 1 100 (s_review_rating env i),
                     Review.Content = s_review_paragraph env i\<rparr>))"

definition seedDatabase :: "float_ops \<Rightarrow> seed_env \<Rightarrow> event list \<times> error option outcome" where
  "seedDatabase fp env =
     (let t1 = [InsertUsers (gen_users env)]
               @ log_if_err ''error inserting users: %v'' (err_of (s_insert_users env))
               @ [Log ''Inserted %d users'' [ArgInt (int (length (seed_users env)))]];
          t2 = [InsertProducts (gen_products env)]
               @ log_if_err ''error inserting products: %v'' (err_of (s_insert_products env))
               @ [Log ''Inserted %d products'' [ArgInt (int (length (seed_products env)))]]
      in case fill 30000 (seed_order fp env) of
           None \<Rightarrow> (t1 @ t2, Panicked)
         | Some orders \<Rightarrow>
             (let t3 = [InsertOrders orders]
                       @ log_if_err ''error inserting orders: %v'' (s_insert_orders env)
                       @ [Log ''Inserted %d orders'' [ArgInt (int (length orders))]]
              in case fill 10000 (seed_review env) of
                   None \<Rightarrow> (t1 @ t2 @ t3, Panicked)
                 | Some reviews \<Rightarrow>
                     (t1 @ t2 @ t3
                      @ [InsertReviews reviews]
                      @ log_if_err ''error inserting reviews: %v'' (s_insert_reviews env)
                      @ [Log ''Inserted %d reviews'' [ArgInt (int (length reviews))]],
                      Returned None)))"

text \<open>A panic in \<^verbatim>\<open>seedDatabase\<close> unwinds through the handler: nothing more is written.\<close>

definition handleSeedDB :: "float_ops \<Rightarrow> seed_env \<Rightarrow> event list \<times> unit outcome" where
  "handleSeedDB fp env =
     (case seedDatabase fp env of
        (t, Panicked) \<Rightarrow> (t, Panicked)
      | (t, Returned err) \<Rightarrow>
          (t @ (case err of None \<Rightarrow> [] | Some e \<Rightarrow> http_Error (Error_text e) 500)
             @ [WriteHeader 201, Write ''Database seeded successfully''],
           Returned ()))"

section \<open>Example environments\<close>

text \<open>Concrete runs at which the properties below are evaluated.\<close>


definition read_env_ok :: read_env where
  "read_env_ok =
     \<lparr>r_product = Inr \<lparr>Product.ID = 7, Product.Name = ''Lamp'', Product.Description = ''Desk lamp'',
                        Product.Price = 0\<rparr>,
      r_order_count = (\<lambda>p. Inr (if p = 7 then 3 else 0)),
      r_unique_users = (\<lambda>p. Inr (if p = 7 then 2 else 0)),
      r_reviews = (\<lambda>p. Inr [])\<rparr>"

definition read_env_no_product :: read_env where
  "read_env_no_product = read_env_ok\<lparr>r_product := Inl ErrNoRows\<rparr>"

definition read_env_count_fails :: read_env where
  "read_env_count_fails = read_env_ok\<lparr>r_unique_users := (\<lambda>p. Inl (PgError ''timeout''))\<rparr>"


text \<open>
  An instance of the two floating-point operations for the examples: a stand-in on the bit
  patterns, not IEEE arithmetic. The only product the examples read is one with the price
  \<^verbatim>\<open>0.0\<close>, which is the zero pattern in IEEE arithmetic as well.
\<close>

definition fp_example :: float_ops where
  "fp_example = \<lparr>f64_of_int = word_of_int, f64_mul = (\<lambda>a b. a * b)\<rparr>"

definition write_env_no_product :: write_env where
  "write_env_no_product =
     \<lparr>w_product = NoRows,
      w_user = Scanned \<lparr>User.ID = 9, User.Name = ''Ann'', User.Address = ''1 Main St''\<rparr>,
      w_quantity = 2,
      w_now = 1722273353,
      w_insert_order = (\<lambda>ord. if Order.ProductID ord = 0 \<or> Order.UserID ord = 0
                               then Some (PgError ''null value violates not-null constraint'')
                               else None),
      w_rating = 41,
      w_paragraph = ''Fine.'',
      w_insert_review = (\<lambda>rev. if Review.ProductID rev = 0 \<or> Review.UserID rev = 0
                                then Some (PgError ''null value violates not-null constraint'')
                                else None)\<rparr>"

definition seed_env_example :: seed_env where
  "seed_env_example =
     \<lparr>s_Name = (\<lambda>i. ''name''), s_Street = (\<lambda>i. ''street''), s_City = (\<lambda>i. ''city''),
      s_Country = (\<lambda>i. ''country''),
      s_insert_users = Inr (\<lambda>i. word_of_nat (1000 + i)),
      s_ProductName = (\<lambda>i. ''product''), s_ProductDescription = (\<lambda>i. ''description''),
      s_Price = (\<lambda>i. 0),
      s_insert_products = Inr (\<lambda>i. word_of_nat (5000 + i)),
      s_order_user = (\<lambda>i. 2003 + i), s_order_product = (\<lambda>i. 7 * i),
      s_order_quantity = (\<lambda>i. i), s_order_date = (\<lambda>i. 1700000000 + int i),
      s_insert_orders = None,
      s_review_user = (\<lambda>i. 3 * i), s_review_product = (\<lambda>i. 105 + i),
      s_review_rating = (\<lambda>i. i), s_review_paragraph = (\<lambda>i. ''text''),
      s_insert_reviews = None\<rparr>"

definition seed_env_all_fail :: seed_env where
  "seed_env_all_fail =
     seed_env_example
       \<lparr>s_insert_users := Inl (PgError ''connection refused''),
        s_insert_products := Inl (PgError ''connection refused''),
        s_insert_orders := Some (PgError ''connection refused''),
        s_insert_reviews := Some (PgError ''connection refused'')\<rparr>"

definition setup_env_all_fail :: setup_env where
  "setup_env_all_fail = \<lparr>exec_result = (\<lambda>d. Some (PgError ''connection refused''))\<rparr>"

section \<open>Properties\<close>

subsection \<open>Traces\<close>

lemma inserts_append: "inserts (a @ b) = inserts a @ inserts b"
  by (simp add: inserts_def)

lemma inserts_Nil: "inserts [] = []"
  by (simp add: inserts_def)

lemma inserts_Cons: "inserts (e # t) = (if is_insert e then e # inserts t else inserts t)"
  by (simp add: inserts_def)

lemma inserts_log_if_err: "inserts (log_if_err fmt err) = []"
  by (simp add: inserts_def log_if_err_def split: option.splits)

lemma written_append: "written (a @ b) = written a @ written b"
  by (induction a rule: written.induct) simp_all

lemma written_log_if_err: "written (log_if_err fmt err) = []"
  by (simp add: log_if_err_def split: option.splits)

lemma writes_append: "writes (a @ b) = writes a @ writes b"
  by (induction a rule: writes.induct) simp_all

lemma writes_log_if_err: "writes (log_if_err fmt err) = []"
  by (simp add: log_if_err_def split: option.splits)

lemma status_code_log_if_err: "status_code (log_if_err fmt err @ t) = status_code t"
  by (simp add: log_if_err_def split: option.splits)

lemma log_if_err_Some: "log_if_err fmt (Some e) = [Log fmt [ArgErr e]]"
  by (simp add: log_if_err_def)

lemma err_of_Inl: "err_of (Inl e) = Some e"
  by (simp add: err_of_def)

subsection \<open>Seeding never panics\<close>



lemma length_gen_users: "length (gen_users env) = 2000"
  by (simp add: gen_users_def)

lemma length_gen_products: "length (gen_products env) = 100"
  by (simp add: gen_products_def)

lemma length_seed_users: "length (seed_users env) = 2000"
  by (simp add: seed_users_def length_gen_users split: sum.splits)

lemma length_seed_products: "length (seed_products env) = 100"
  by (simp add: seed_products_def length_gen_products split: sum.splits)

lemma pick_nonempty:
  assumes "xs \<noteq> []"
  shows "pick xs r = Some (xs ! (r mod length xs))"
  using assms by (simp add: pick_def Intn_def index_def)

lemma those_map_Some:
  assumes "\<And>x. x \<in> set xs \<Longrightarrow> f x = Some (g x)"
  shows "those (map f xs) = Some (map g xs)"
  using assms by (induction xs) simp_all

lemma fill_Some:
  assumes "\<And>i. i < n \<Longrightarrow> body i = Some (g i)"
  shows "fill n body = Some (map g [0..<n])"
  unfolding fill_def using assms by (intro those_map_Some) simp

lemma seed_order_Some:
  "seed_order fp env i =
     Some \<lparr>Order.ID = 0,
           Order.UserID = User.ID (seed_users env ! (s_order_user env i mod 2000)),
           Order.ProductID = Product.ID (seed_products env ! (s_order_product env i mod 100)),
           Order.Quantity = Number 1 10 (s_order_quantity env i),
           Order.TotalPrice =
             f64_mul fp (f64_of_int fp (Number 1 10 (s_order_quantity env i)))
               (Product.Price (seed_products env ! (s_order_product env i mod 100))),
           Order.Date = s_order_date env i\<rparr>"
proof -
  have u: "seed_users env \<noteq> []" and p: "seed_products env \<noteq> []"
    using length_seed_users [of env] length_seed_products [of env] by auto
  show ?thesis
    by (simp add: seed_order_def pick_nonempty [OF u] pick_nonempty [OF p]
        length_seed_users length_seed_products Let_def)
qed

lemma seed_review_Some:
  "seed_review env i =
     Some \<lparr>Review.ID = 0,
           Review.ProductID = Product.ID (seed_products env ! (s_review_product env i mod 100)),
           Review.UserID = User.ID (seed_users env ! (s_review_user env i mod 2000)),
           Review.Rating = Number 1 100 (s_review_rating env i),
           Review.Content = s_review_paragraph env i\<rparr>"
proof -
  have u: "seed_users env \<noteq> []" and p: "seed_products env \<noteq> []"
    using length_seed_users [of env] length_seed_products [of env] by auto
  show ?thesis
    by (simp add: seed_review_def pick_nonempty [OF u] pick_nonempty [OF p]
        length_seed_users length_seed_products)
qed

lemma fill_orders:
  "fill 30000 (seed_order fp env) = Some (map (\<lambda>i. the (seed_order fp env i)) [0..<30000])"
  by (rule fill_Some) (simp add: seed_order_Some)

lemma fill_reviews:
  "fill 10000 (seed_review env) = Some (map (\<lambda>i. the (seed_review env i)) [0..<10000])"
  by (rule fill_Some) (simp add: seed_review_Some)

lemma seedDatabase_returns:
  "seedDatabase fp env =
     ([InsertUsers (gen_users env)]
      @ log_if_err ''error inserting users: %v'' (err_of (s_insert_users env))
      @ [Log ''Inserted %d users'' [ArgInt 2000]]
      @ [InsertProducts (gen_products env)]
      @ log_if_err ''error inserting products: %v'' (err_of (s_insert_products env))
      @ [Log ''Inserted %d products'' [ArgInt 100]]
      @ [InsertOrders (map (\<lambda>i. the (seed_order fp env i)) [0..<30000])]
      @ log_if_err ''error inserting orders: %v'' (s_insert_orders env)
      @ [Log ''Inserted %d orders'' [ArgInt 30000]]
      @ [InsertReviews (map (\<lambda>i. the (seed_review env i)) [0..<10000])]
      @ log_if_err ''error inserting reviews: %v'' (s_insert_reviews env)
      @ [Log ''Inserted %d reviews'' [ArgInt 10000]],
      Returned None)"
  by (simp add: seedDatabase_def fill_orders fill_reviews length_seed_users
      length_seed_products Let_def)

subsection \<open>What a seeding run submits and keeps in memory\<close>

lemma log_if_err_only_logs:
  "InsertUsers us \<notin> set (log_if_err fmt err)"
  "InsertProducts ps \<notin> set (log_if_err fmt err)"
  "InsertOrders os \<notin> set (log_if_err fmt err)"
  "InsertReviews rs \<notin> set (log_if_err fmt err)"
  by (simp_all add: log_if_err_def split: option.splits)

lemma seedDatabase_submitted:
  "InsertUsers us \<in> set (fst (seedDatabase fp env)) \<Longrightarrow> us = gen_users env"
  "InsertProducts ps \<in> set (fst (seedDatabase fp env)) \<Longrightarrow> ps = gen_products env"
  "InsertOrders os \<in> set (fst (seedDatabase fp env)) \<Longrightarrow>
     os = map (\<lambda>i. the (seed_order fp env i)) [0..<30000]"
  "InsertReviews rs \<in> set (fst (seedDatabase fp env)) \<Longrightarrow>
     rs = map (\<lambda>i. the (seed_review env i)) [0..<10000]"
  by (simp_all add: seedDatabase_returns log_if_err_only_logs)

lemma seed_users_fields:
  assumes "j < 2000"
  shows "User.Name (seed_users env ! j) = User.Name (gen_users env ! j)"
    and "User.Address (seed_users env ! j) = User.Address (gen_users env ! j)"
  using assms
  by (simp_all add: seed_users_def length_gen_users nth_enumerate_eq split: sum.splits)

lemma seed_products_fields:
  assumes "k < 100"
  shows "Product.Name (seed_products env ! k) = Product.Name (gen_products env ! k)"
    and "Product.Description (seed_products env ! k) = Product.Description (gen_products env ! k)"
    and "Product.Price (seed_products env ! k) = Product.Price (gen_products env ! k)"
  using assms
  by (simp_all add: seed_products_def length_gen_products nth_enumerate_eq split: sum.splits)

lemma queries_append: "queries (a @ b) = queries a @ queries b"
  by (induction a rule: queries.induct) simp_all

lemma queries_log_if_err: "queries (log_if_err fmt err) = []"
  by (simp add: log_if_err_def split: option.splits)

lemma order_rows_append: "order_rows (a @ b) = order_rows a @ order_rows b"
  by (induction a rule: order_rows.induct) simp_all

lemma order_rows_log_if_err: "order_rows (log_if_err fmt err) = []"
  by (simp add: log_if_err_def split: option.splits)

lemma review_rows_append: "review_rows (a @ b) = review_rows a @ review_rows b"
  by (induction a rule: review_rows.induct) simp_all

lemma review_rows_log_if_err: "review_rows (log_if_err fmt err) = []"
  by (simp add: log_if_err_def split: option.splits)

lemma seedDatabase_no_query: "queries (fst (seedDatabase fp env)) = []"
  by (simp add: seedDatabase_returns queries_append queries_log_if_err)

lemma seedDatabase_order_rows:
  "order_rows (fst (seedDatabase fp env)) = map (\<lambda>i. the (seed_order fp env i)) [0..<30000]"
  by (simp add: seedDatabase_returns order_rows_append order_rows_log_if_err)

lemma seedDatabase_review_rows:
  "review_rows (fst (seedDatabase fp env)) = map (\<lambda>i. the (seed_review env i)) [0..<10000]"
  by (simp add: seedDatabase_returns review_rows_append review_rows_log_if_err)

lemma seed_users_failed:
  assumes "isl (s_insert_users env)" "j < 2000"
  shows "User.ID (seed_users env ! j) = 0"
  using assms by (cases "s_insert_users env") (simp_all add: seed_users_def gen_users_def)

lemma seed_products_failed:
  assumes "isl (s_insert_products env)" "k < 100"
  shows "Product.ID (seed_products env ! k) = 0"
  using assms by (cases "s_insert_products env") (simp_all add: seed_products_def gen_products_def)

lemma stored_users_cases:
  "isl (s_insert_users env) \<Longrightarrow> stored_users env = []"
  "\<not> isl (s_insert_users env) \<Longrightarrow> stored_users env = seed_users env"
  by (cases "s_insert_users env"; simp add: stored_users_def)+

lemma stored_products_cases:
  "isl (s_insert_products env) \<Longrightarrow> stored_products env = []"
  "\<not> isl (s_insert_products env) \<Longrightarrow> stored_products env = seed_products env"
  by (cases "s_insert_products env"; simp add: stored_products_def)+

lemma seed_user_id_mem: "User.ID (seed_users env ! (r mod 2000)) \<in> User.ID ` set (seed_users env)"
  by (rule imageI, rule nth_mem) (simp add: length_seed_users)

lemma seed_product_id_mem:
  "Product.ID (seed_products env ! (r mod 100)) \<in> Product.ID ` set (seed_products env)"
  by (rule imageI, rule nth_mem) (simp add: length_seed_products)

lemma seed_rows_users_failed:
  assumes "isl (s_insert_users env)"
  shows "\<forall>ord\<in>set (order_rows (fst (seedDatabase fp env))). Order.UserID ord = 0"
    and "\<forall>r\<in>set (review_rows (fst (seedDatabase fp env))). Review.UserID r = 0"
  using assms
  by (simp_all add: seedDatabase_order_rows seedDatabase_review_rows seed_order_Some
      seed_review_Some seed_users_failed)

lemma seed_rows_products_failed:
  assumes "isl (s_insert_products env)"
  shows "\<forall>ord\<in>set (order_rows (fst (seedDatabase fp env))). Order.ProductID ord = 0"
    and "\<forall>r\<in>set (review_rows (fst (seedDatabase fp env))). Review.ProductID r = 0"
  using assms
  by (simp_all add: seedDatabase_order_rows seedDatabase_review_rows seed_order_Some
      seed_review_Some seed_products_failed)

lemma seed_rows_users_stored:
  assumes "\<not> isl (s_insert_users env)"
  shows "\<forall>ord\<in>set (order_rows (fst (seedDatabase fp env))).
           Order.UserID ord \<in> User.ID ` set (stored_users env)"
    and "\<forall>r\<in>set (review_rows (fst (seedDatabase fp env))).
           Review.UserID r \<in> User.ID ` set (stored_users env)"
  using assms
  by (simp_all add: seedDatabase_order_rows seedDatabase_review_rows seed_order_Some
      seed_review_Some stored_users_cases seed_user_id_mem)

lemma seed_rows_products_stored:
  assumes "\<not> isl (s_insert_products env)"
  shows "\<forall>ord\<in>set (order_rows (fst (seedDatabase fp env))).
           Order.ProductID ord \<in> Product.ID ` set (stored_products env)"
    and "\<forall>r\<in>set (review_rows (fst (seedDatabase fp env))).
           Review.ProductID r \<in> Product.ID ` set (stored_products env)"
  using assms
  by (simp_all add: seedDatabase_order_rows seedDatabase_review_rows seed_order_Some
      seed_review_Some stored_products_cases seed_product_id_mem)

subsection \<open>The write workload\<close>

text \<open>
  C8. Within one invocation of the write workload, the store writes are exactly two: the
  insert of the order first, the insert of the review second.
\<close>

theorem handleDBWrite_order_before_review:
  "\<exists>ord rev. inserts (handleDBWrite fp env) = [InsertOrder ord, InsertReview rev]"
  by (simp add: handleDBWrite_def Let_def inserts_append inserts_Cons inserts_Nil
      inserts_log_if_err)

text \<open>
  C1, evaluated on the code. In a run where the product sample returns \<^verbatim>\<open>pg.ErrNoRows\<close>
  (no product row), the handler issues both samples and then still submits the order and the
  review, carrying the zero product id of the untouched \<^verbatim>\<open>product\<close> variable.
\<close>

theorem handleDBWrite_inserts_after_NotFound:
  "w_product write_env_no_product = NoRows \<and>
   sample_err (w_product write_env_no_product) = Some ErrNoRows \<and>
   queries (handleDBWrite fp_example write_env_no_product) =
     [SelectRandomProduct, SelectRandomUser] \<and>
   inserts (handleDBWrite fp_example write_env_no_product) =
     [InsertOrder \<lparr>Order.ID = 0, Order.UserID = 9, Order.ProductID = 0, Order.Quantity = 3,
                   Order.TotalPrice = 0, Order.Date = 1722273353\<rparr>,
      InsertReview \<lparr>Review.ID = 0, Review.ProductID = 0, Review.UserID = 9,
                    Review.Rating = 42, Review.Content = ''Fine.''\<rparr>]"
  by (simp add: handleDBWrite_def write_env_no_product_def fp_example_def zero_Product_def
      Number_def Let_def inserts_def log_if_err_def)

text \<open>
  C6, evaluated on the code. In the same run three store calls fail (the product sample and
  both inserts): each error is logged, but the handler writes no error status; it renders
  \<^verbatim>\<open>write.html\<close> and the caller receives 200.
\<close>

theorem handleDBWrite_error_without_server_error:
  "logged_errors (handleDBWrite fp_example write_env_no_product) =
     [ErrNoRows, PgError ''null value violates not-null constraint'',
      PgError ''null value violates not-null constraint''] \<and>
   status_code (handleDBWrite fp_example write_env_no_product) = 200 \<and>
   map fst (renders (handleDBWrite fp_example write_env_no_product)) = [''write.html'']"
  by (simp add: handleDBWrite_def write_env_no_product_def fp_example_def zero_Product_def
      Number_def Let_def log_if_err_def)

subsection \<open>The read workload\<close>

text \<open>
  C5. In an invocation of the read workload: when the product sample fails, the only query
  issued is the sample, its error is logged, the status is 500 and nothing is rendered. When
  it succeeds with product \<open>p\<close>, the queries issued are an initial part of the sample,
  the order count, the distinct-user count and the review fetch, the three of them with the
  id of \<open>p\<close>; if one of the three fails, its error is logged, the status is 500 and
  nothing is rendered; otherwise all four are issued and the page is rendered once.
\<close>

theorem handleDBRead_same_product_or_server_error:
  "(case r_product env of
      Inl e \<Rightarrow>
        queries (handleDBRead env) = [SelectRandomProduct] \<and>
        logged_errors (handleDBRead env) = [e] \<and>
        status_code (handleDBRead env) = 500 \<and>
        renders (handleDBRead env) = []
    | Inr p \<Rightarrow>
        prefix (queries (handleDBRead env))
          [SelectRandomProduct, CountOrders (Product.ID p), CountDistinctUsers (Product.ID p),
           SelectReviews (Product.ID p)] \<and>
        (if isl (r_order_count env (Product.ID p)) \<or> isl (r_unique_users env (Product.ID p))
            \<or> isl (r_reviews env (Product.ID p))
         then (\<exists>e. logged_errors (handleDBRead env) = [e] \<and>
                 (r_order_count env (Product.ID p) = Inl e \<or>
                  r_unique_users env (Product.ID p) = Inl e \<or>
                  r_reviews env (Product.ID p) = Inl e)) \<and>
              status_code (handleDBRead env) = 500 \<and>
              renders (handleDBRead env) = []
         else queries (handleDBRead env) =
                [SelectRandomProduct, CountOrders (Product.ID p),
                 CountDistinctUsers (Product.ID p), SelectReviews (Product.ID p)] \<and>
              logged_errors (handleDBRead env) = [] \<and>
              status_code (handleDBRead env) = 200 \<and>
              length (renders (handleDBRead env)) = 1))"
  by (auto simp: handleDBRead_def split: sum.splits)

theorem handleDBRead_witness:
  "r_product read_env_no_product = Inl ErrNoRows \<and>
   queries (handleDBRead read_env_no_product) = [SelectRandomProduct] \<and>
   status_code (handleDBRead read_env_no_product) = 500 \<and>
   isl (r_unique_users read_env_count_fails 7) \<and>
   queries (handleDBRead read_env_count_fails) =
     [SelectRandomProduct, CountOrders 7, CountDistinctUsers 7] \<and>
   logged_errors (handleDBRead read_env_count_fails) = [PgError ''timeout''] \<and>
   status_code (handleDBRead read_env_count_fails) = 500 \<and>
   renders (handleDBRead read_env_count_fails) = [] \<and>
   queries (handleDBRead read_env_ok) =
     [SelectRandomProduct, CountOrders 7, CountDistinctUsers 7, SelectReviews 7] \<and>
   status_code (handleDBRead read_env_ok) = 200"
  using handleDBRead_same_product_or_server_error [of read_env_no_product]
    handleDBRead_same_product_or_server_error [of read_env_count_fails]
    handleDBRead_same_product_or_server_error [of read_env_ok]
  by (simp add: read_env_no_product_def read_env_count_fails_def read_env_ok_def handleDBRead_def)

subsection \<open>Seeding\<close>

text \<open>
  C4. A seeding run submits four bulk inserts and no other write: 2000 rows to users, then
  100 rows to products, then 30000 rows to orders, then 10000 rows to reviews.
\<close>

theorem seedDatabase_default_volumes:
  "written (fst (seedDatabase fp env)) =
     [(''users'', 2000), (''products'', 100), (''orders'', 30000), (''reviews'', 10000)]"
  by (simp add: seedDatabase_returns written_append written_log_if_err
      length_gen_users length_gen_products)

text \<open>
  C2, as the code has it. The orders and reviews a seeding run submits take their ids from
  the slices in memory, and the run issues no query: the \<open>i\<close>-th order (review) carries the
  \<^verbatim>\<open>ID\<close> of the user at the index that \<^verbatim>\<open>rand.Intn(len(users))\<close> returned in iteration \<open>i\<close>
  and of the product at the index that \<^verbatim>\<open>rand.Intn(len(products))\<close> returned, both within
  the slices. These slices are the rows generated and submitted earlier in the run (same
  length, same content). When the bulk insert of the users (products) succeeded, the ids
  are those the store returned, so every user (product) reference is the id of a row the
  store holds from this run. When it failed, the run goes on with the slice as generated:
  the store holds no such row and every user (product) reference is the zero id.
\<close>

theorem seedDatabase_references_in_memory:
  "(InsertOrders os \<in> set (fst (seedDatabase fp env)) \<longrightarrow>
      (\<forall>i<length os. \<exists>j k.
          Intn (length (seed_users env)) (s_order_user env i) = Some j \<and>
          j < length (seed_users env) \<and>
          Intn (length (seed_products env)) (s_order_product env i) = Some k \<and>
          k < length (seed_products env) \<and>
          Order.UserID (os ! i) = User.ID (seed_users env ! j) \<and>
          Order.ProductID (os ! i) = Product.ID (seed_products env ! k))) \<and>
   (InsertReviews rs \<in> set (fst (seedDatabase fp env)) \<longrightarrow>
      (\<forall>i<length rs. \<exists>j k.
          Intn (length (seed_users env)) (s_review_user env i) = Some j \<and>
          j < length (seed_users env) \<and>
          Intn (length (seed_products env)) (s_review_product env i) = Some k \<and>
          k < length (seed_products env) \<and>
          Review.UserID (rs ! i) = User.ID (seed_users env ! j) \<and>
          Review.ProductID (rs ! i) = Product.ID (seed_products env ! k))) \<and>
   (InsertUsers us \<in> set (fst (seedDatabase fp env)) \<longrightarrow>
      length (seed_users env) = length us \<and>
      (\<forall>j<length us. User.Name (seed_users env ! j) = User.Name (us ! j) \<and>
                      User.Address (seed_users env ! j) = User.Address (us ! j))) \<and>
   (InsertProducts ps \<in> set (fst (seedDatabase fp env)) \<longrightarrow>
      length (seed_products env) = length ps \<and>
      (\<forall>k<length ps. Product.Name (seed_products env ! k) = Product.Name (ps ! k) \<and>
                      Product.Description (seed_products env ! k) = Product.Description (ps ! k) \<and>
                      Product.Price (seed_products env ! k) = Product.Price (ps ! k))) \<and>
   queries (fst (seedDatabase fp env)) = [] \<and>
   (InsertOrders os \<in> set (fst (seedDatabase fp env)) \<longrightarrow>
      order_rows (fst (seedDatabase fp env)) = os) \<and>
   (InsertReviews rs \<in> set (fst (seedDatabase fp env)) \<longrightarrow>
      review_rows (fst (seedDatabase fp env)) = rs) \<and>
   (\<not> isl (s_insert_users env) \<longrightarrow>
      (\<forall>ord\<in>set (order_rows (fst (seedDatabase fp env))).
          Order.UserID ord \<in> User.ID ` set (stored_users env)) \<and>
      (\<forall>r\<in>set (review_rows (fst (seedDatabase fp env))).
          Review.UserID r \<in> User.ID ` set (stored_users env))) \<and>
   (\<not> isl (s_insert_products env) \<longrightarrow>
      (\<forall>ord\<in>set (order_rows (fst (seedDatabase fp env))).
          Order.ProductID ord \<in> Product.ID ` set (stored_products env)) \<and>
      (\<forall>r\<in>set (review_rows (fst (seedDatabase fp env))).
          Review.ProductID r \<in> Product.ID ` set (stored_products env))) \<and>
   (isl (s_insert_users env) \<longrightarrow>
      stored_users env = [] \<and>
      (\<forall>ord\<in>set (order_rows (fst (seedDatabase fp env))). Order.UserID ord = 0) \<and>
      (\<forall>r\<in>set (review_rows (fst (seedDatabase fp env))). Review.UserID r = 0)) \<and>
   (isl (s_insert_products env) \<longrightarrow>
      stored_products env = [] \<and>
      (\<forall>ord\<in>set (order_rows (fst (seedDatabase fp env))). Order.ProductID ord = 0) \<and>
      (\<forall>r\<in>set (review_rows (fst (seedDatabase fp env))). Review.ProductID r = 0))"
proof (intro conjI impI)
  assume "InsertOrders os \<in> set (fst (seedDatabase fp env))"
  then have os: "os = map (\<lambda>i. the (seed_order fp env i)) [0..<30000]"
    by (rule seedDatabase_submitted)
  show "\<forall>i<length os. \<exists>j k.
          Intn (length (seed_users env)) (s_order_user env i) = Some j \<and>
          j < length (seed_users env) \<and>
          Intn (length (seed_products env)) (s_order_product env i) = Some k \<and>
          k < length (seed_products env) \<and>
          Order.UserID (os ! i) = User.ID (seed_users env ! j) \<and>
          Order.ProductID (os ! i) = Product.ID (seed_products env ! k)"
    by (simp add: os seed_order_Some length_seed_users length_seed_products Intn_def)
next
  assume "InsertReviews rs \<in> set (fst (seedDatabase fp env))"
  then have rs: "rs = map (\<lambda>i. the (seed_review env i)) [0..<10000]"
    by (rule seedDatabase_submitted)
  show "\<forall>i<length rs. \<exists>j k.
          Intn (length (seed_users env)) (s_review_user env i) = Some j \<and>
          j < length (seed_users env) \<and>
          Intn (length (seed_products env)) (s_review_product env i) = Some k \<and>
          k < length (seed_products env) \<and>
          Review.UserID (rs ! i) = User.ID (seed_users env ! j) \<and>
          Review.ProductID (rs ! i) = Product.ID (seed_products env ! k)"
    by (simp add: rs seed_review_Some length_seed_users length_seed_products Intn_def)
next
  assume "InsertUsers us \<in> set (fst (seedDatabase fp env))"
  then have us: "us = gen_users env"
    by (rule seedDatabase_submitted)
  show "length (seed_users env) = length us"
    by (simp add: us length_seed_users length_gen_users)
  show "\<forall>j<length us. User.Name (seed_users env ! j) = User.Name (us ! j) \<and>
                      User.Address (seed_users env ! j) = User.Address (us ! j)"
    by (simp add: us length_gen_users seed_users_fields)
next
  assume "InsertProducts ps \<in> set (fst (seedDatabase fp env))"
  then have ps: "ps = gen_products env"
    by (rule seedDatabase_submitted)
  show "length (seed_products env) = length ps"
    by (simp add: ps length_seed_products length_gen_products)
  show "\<forall>k<length ps. Product.Name (seed_products env ! k) = Product.Name (ps ! k) \<and>
                      Product.Description (seed_products env ! k) = Product.Description (ps ! k) \<and>
                      Product.Price (seed_products env ! k) = Product.Price (ps ! k)"
    by (simp add: ps length_gen_products seed_products_fields)
next
  show "queries (fst (seedDatabase fp env)) = []"
    by (rule seedDatabase_no_query)
next
  assume "InsertOrders os \<in> set (fst (seedDatabase fp env))"
  then have "os = map (\<lambda>i. the (seed_order fp env i)) [0..<30000]"
    by (rule seedDatabase_submitted)
  then show "order_rows (fst (seedDatabase fp env)) = os"
    by (simp only: seedDatabase_order_rows)
next
  assume "InsertReviews rs \<in> set (fst (seedDatabase fp env))"
  then have "rs = map (\<lambda>i. the (seed_review env i)) [0..<10000]"
    by (rule seedDatabase_submitted)
  then show "review_rows (fst (seedDatabase fp env)) = rs"
    by (simp only: seedDatabase_review_rows)
next
  assume ok: "\<not> isl (s_insert_users env)"
  show "\<forall>ord\<in>set (order_rows (fst (seedDatabase fp env))).
          Order.UserID ord \<in> User.ID ` set (stored_users env)"
    by (rule seed_rows_users_stored(1) [OF ok])
  show "\<forall>r\<in>set (review_rows (fst (seedDatabase fp env))).
          Review.UserID r \<in> User.ID ` set (stored_users env)"
    by (rule seed_rows_users_stored(2) [OF ok])
next
  assume ok: "\<not> isl (s_insert_products env)"
  show "\<forall>ord\<in>set (order_rows (fst (seedDatabase fp env))).
          Order.ProductID ord \<in> Product.ID ` set (stored_products env)"
    by (rule seed_rows_products_stored(1) [OF ok])
  show "\<forall>r\<in>set (review_rows (fst (seedDatabase fp env))).
          Review.ProductID r \<in> Product.ID ` set (stored_products env)"
    by (rule seed_rows_products_stored(2) [OF ok])
next
  assume failed: "isl (s_insert_users env)"
  show "stored_users env = []"
    by (rule stored_users_cases(1) [OF failed])
  show "\<forall>ord\<in>set (order_rows (fst (seedDatabase fp env))). Order.UserID ord = 0"
    by (rule seed_rows_users_failed(1) [OF failed])
  show "\<forall>r\<in>set (review_rows (fst (seedDatabase fp env))). Review.UserID r = 0"
    by (rule seed_rows_users_failed(2) [OF failed])
next
  assume failed: "isl (s_insert_products env)"
  show "stored_products env = []"
    by (rule stored_products_cases(1) [OF failed])
  show "\<forall>ord\<in>set (order_rows (fst (seedDatabase fp env))). Order.ProductID ord = 0"
    by (rule seed_rows_products_failed(1) [OF failed])
  show "\<forall>r\<in>set (review_rows (fst (seedDatabase fp env))). Review.ProductID r = 0"
    by (rule seed_rows_products_failed(2) [OF failed])
qed

theorem seedDatabase_references_in_memory_witness:
  "\<exists>os rs.
     InsertOrders os \<in> set (fst (seedDatabase fp_example seed_env_example)) \<and>
     InsertReviews rs \<in> set (fst (seedDatabase fp_example seed_env_example)) \<and>
     5 < length os \<and> 5 < length rs \<and>
     Order.UserID (os ! 5) = User.ID (seed_users seed_env_example ! 8) \<and>
     Order.ProductID (os ! 5) = Product.ID (seed_products seed_env_example ! 35) \<and>
     Review.UserID (rs ! 5) = User.ID (seed_users seed_env_example ! 15) \<and>
     Review.ProductID (rs ! 5) = Product.ID (seed_products seed_env_example ! 10) \<and>
     User.ID (seed_users seed_env_example ! 8) = 1008 \<and>
     Product.ID (seed_products seed_env_example ! 35) = 5035 \<and>
     \<not> isl (s_insert_users seed_env_example) \<and>
     \<not> isl (s_insert_products seed_env_example) \<and>
     Order.UserID (os ! 5) \<in> User.ID ` set (stored_users seed_env_example) \<and>
     Order.ProductID (os ! 5) \<in> Product.ID ` set (stored_products seed_env_example) \<and>
     queries (fst (seedDatabase fp_example seed_env_example)) = [] \<and>
     isl (s_insert_users seed_env_all_fail) \<and>
     isl (s_insert_products seed_env_all_fail) \<and>
     stored_users seed_env_all_fail = [] \<and>
     stored_products seed_env_all_fail = [] \<and>
     5 < length (order_rows (fst (seedDatabase fp_example seed_env_all_fail))) \<and>
     Order.UserID (order_rows (fst (seedDatabase fp_example seed_env_all_fail)) ! 5) = 0 \<and>
     Order.ProductID (order_rows (fst (seedDatabase fp_example seed_env_all_fail)) ! 5) = 0"
proof -
  let ?t = "fst (seedDatabase fp_example seed_env_example)"
  let ?f = "fst (seedDatabase fp_example seed_env_all_fail)"
  let ?os = "map (\<lambda>i. the (seed_order fp_example seed_env_example i)) [0..<30000]"
  let ?rs = "map (\<lambda>i. the (seed_review seed_env_example i)) [0..<10000]"
  have os: "InsertOrders ?os \<in> set ?t"
    by (simp add: seedDatabase_returns)
  have rs: "InsertReviews ?rs \<in> set ?t"
    by (simp add: seedDatabase_returns)
  have len: "5 < length ?os" "5 < length ?rs"
    by simp_all
  note inst = seedDatabase_references_in_memory
    [of ?os fp_example seed_env_example ?rs "gen_users seed_env_example"
      "gen_products seed_env_example"]
  note c1 = inst [THEN conjunct1]
  note c2 = inst [THEN conjunct2, THEN conjunct1]
  note d4 = inst [THEN conjunct2, THEN conjunct2, THEN conjunct2, THEN conjunct2]
  note c5 = d4 [THEN conjunct1]
  note c6 = d4 [THEN conjunct2, THEN conjunct1]
  note c8 = d4 [THEN conjunct2, THEN conjunct2, THEN conjunct2, THEN conjunct1]
  note c9 = d4 [THEN conjunct2, THEN conjunct2, THEN conjunct2, THEN conjunct2, THEN conjunct1]
  from c1 [THEN mp, OF os, THEN spec, THEN mp, OF len(1)] obtain j k where o5:
    "Intn (length (seed_users seed_env_example)) (s_order_user seed_env_example 5) = Some j"
    "Intn (length (seed_products seed_env_example)) (s_order_product seed_env_example 5) = Some k"
    "Order.UserID (?os ! 5) = User.ID (seed_users seed_env_example ! j)"
    "Order.ProductID (?os ! 5) = Product.ID (seed_products seed_env_example ! k)"
    by (elim exE conjE)
  from c2 [THEN mp, OF rs, THEN spec, THEN mp, OF len(2)] obtain j' k' where r5:
    "Intn (length (seed_users seed_env_example)) (s_review_user seed_env_example 5) = Some j'"
    "Intn (length (seed_products seed_env_example)) (s_review_product seed_env_example 5) = Some k'"
    "Review.UserID (?rs ! 5) = User.ID (seed_users seed_env_example ! j')"
    "Review.ProductID (?rs ! 5) = Product.ID (seed_products seed_env_example ! k')"
    by (elim exE conjE)
  have j: "j = 8" and k: "k = 35" and j': "j' = 15" and k': "k' = 10"
    using o5(1,2) r5(1,2)
    by (simp_all add: length_seed_users length_seed_products Intn_def seed_env_example_def)
  note refs = o5(3,4) [unfolded j k] r5(3,4) [unfolded j' k']
  have u8: "User.ID (seed_users seed_env_example ! 8) = 1008"
    by (simp add: seed_users_def gen_users_def seed_env_example_def nth_enumerate_eq)
  have p35: "Product.ID (seed_products seed_env_example ! 35) = 5035"
    by (simp add: seed_products_def gen_products_def seed_env_example_def nth_enumerate_eq)
  have ok: "\<not> isl (s_insert_users seed_env_example)"
    "\<not> isl (s_insert_products seed_env_example)"
    by (simp_all add: seed_env_example_def)
  have mem: "?os ! 5 \<in> set (order_rows ?t)"
    unfolding c6 [THEN mp, OF os] using len(1) by (rule nth_mem)
  note su = c8 [THEN mp, OF ok(1), THEN conjunct1, THEN bspec, OF mem]
  note sp = c9 [THEN mp, OF ok(2), THEN conjunct1, THEN bspec, OF mem]
  note fail = seedDatabase_references_in_memory
    [of "order_rows ?f" fp_example seed_env_all_fail "review_rows ?f"
      "gen_users seed_env_all_fail" "gen_products seed_env_all_fail"]
  note f9 = fail [THEN conjunct2, THEN conjunct2, THEN conjunct2, THEN conjunct2,
      THEN conjunct2, THEN conjunct2, THEN conjunct2, THEN conjunct2, THEN conjunct2]
  have failed: "isl (s_insert_users seed_env_all_fail)"
    "isl (s_insert_products seed_env_all_fail)"
    by (simp_all add: seed_env_all_fail_def)
  have flen: "5 < length (order_rows ?f)"
    by (simp add: seedDatabase_order_rows)
  then have fmem: "order_rows ?f ! 5 \<in> set (order_rows ?f)"
    by (rule nth_mem)
  note fu = f9 [THEN conjunct1, THEN mp, OF failed(1)]
  note fpr = f9 [THEN conjunct2, THEN mp, OF failed(2)]
  note zero = fu [THEN conjunct1] fpr [THEN conjunct1]
    fu [THEN conjunct2, THEN conjunct1, THEN bspec, OF fmem]
    fpr [THEN conjunct2, THEN conjunct1, THEN bspec, OF fmem]
  show ?thesis
    by (intro exI [of _ ?os] exI [of _ ?rs] conjI)
      (rule os rs len refs u8 p35 ok su sp c5 failed zero flen)+
qed

text \<open>
  C2, as stated, fails: in a run whose users and products inserts are refused, the orders
  are still generated, 30000 of them; the order at index 5 carries the zero id for its user
  and its product, and the store holds no user and no product row of this run that it
  could reference.
\<close>

theorem seedDatabase_dangling_references_counterexample:
  "s_insert_users seed_env_all_fail = Inl (PgError ''connection refused'') \<and>
   s_insert_products seed_env_all_fail = Inl (PgError ''connection refused'') \<and>
   length (order_rows (fst (seedDatabase fp_example seed_env_all_fail))) = 30000 \<and>
   Order.UserID (order_rows (fst (seedDatabase fp_example seed_env_all_fail)) ! 5) = 0 \<and>
   Order.ProductID (order_rows (fst (seedDatabase fp_example seed_env_all_fail)) ! 5) = 0 \<and>
   stored_users seed_env_all_fail = [] \<and>
   stored_products seed_env_all_fail = [] \<and>
   Order.UserID (order_rows (fst (seedDatabase fp_example seed_env_all_fail)) ! 5)
     \<notin> User.ID ` set (stored_users seed_env_all_fail) \<and>
   Order.ProductID (order_rows (fst (seedDatabase fp_example seed_env_all_fail)) ! 5)
     \<notin> Product.ID ` set (stored_products seed_env_all_fail)"
proof -
  have failed: "isl (s_insert_users seed_env_all_fail)"
    "isl (s_insert_products seed_env_all_fail)"
    by (simp_all add: seed_env_all_fail_def)
  have e: "s_insert_users seed_env_all_fail = Inl (PgError ''connection refused'')"
    "s_insert_products seed_env_all_fail = Inl (PgError ''connection refused'')"
    by (simp_all add: seed_env_all_fail_def)
  have ids: "Order.UserID (order_rows (fst (seedDatabase fp_example seed_env_all_fail)) ! 5) = 0"
    "Order.ProductID (order_rows (fst (seedDatabase fp_example seed_env_all_fail)) ! 5) = 0"
    by (simp_all add: seedDatabase_order_rows seed_order_Some seed_users_failed [OF failed(1)]
        seed_products_failed [OF failed(2)])
  have len: "length (order_rows (fst (seedDatabase fp_example seed_env_all_fail))) = 30000"
    by (simp add: seedDatabase_order_rows)
  show ?thesis
    using e ids len stored_users_cases(1) [OF failed(1)] stored_products_cases(1) [OF failed(2)]
    by simp
qed

text \<open>
  C7, as the code has it. When the bulk insert of the users fails, \<^verbatim>\<open>seedDatabase\<close> logs the
  error and goes on: products, orders and reviews are generated and submitted, and the
  function returns \<^verbatim>\<open>nil\<close>.
\<close>

theorem seedDatabase_users_error_not_fatal:
  assumes "s_insert_users env = Inl e"
  shows "Log ''error inserting users: %v'' [ArgErr e] \<in> set (fst (seedDatabase fp env)) \<and>
         map fst (written (fst (seedDatabase fp env))) =
           [''users'', ''products'', ''orders'', ''reviews''] \<and>
         snd (seedDatabase fp env) = Returned None"
proof -
  have "Log ''error inserting users: %v'' [ArgErr e] \<in> set (fst (seedDatabase fp env))"
    using assms by (simp add: seedDatabase_returns err_of_Inl log_if_err_Some)
  moreover have "map fst (written (fst (seedDatabase fp env))) =
      [''users'', ''products'', ''orders'', ''reviews'']"
    by (simp add: seedDatabase_returns written_append written_log_if_err)
  moreover have "snd (seedDatabase fp env) = Returned None"
    by (simp add: seedDatabase_returns)
  ultimately show ?thesis by simp
qed

theorem seedDatabase_users_error_not_fatal_witness:
  "s_insert_users seed_env_all_fail = Inl (PgError ''connection refused'') \<and>
   Log ''error inserting users: %v'' [ArgErr (PgError ''connection refused'')]
     \<in> set (fst (seedDatabase fp_example seed_env_all_fail)) \<and>
   map fst (written (fst (seedDatabase fp_example seed_env_all_fail))) =
     [''users'', ''products'', ''orders'', ''reviews''] \<and>
   snd (seedDatabase fp_example seed_env_all_fail) = Returned None"
proof -
  have h: "s_insert_users seed_env_all_fail = Inl (PgError ''connection refused'')"
    by (simp add: seed_env_all_fail_def)
  show ?thesis
    using h seedDatabase_users_error_not_fatal [OF h, of fp_example] by simp
qed

text \<open>
  C7, as stated, fails: in a run whose users insert is refused, the three later inserts are
  still submitted and the function returns normally.
\<close>

theorem seedDatabase_users_error_counterexample:
  "s_insert_users seed_env_all_fail = Inl (PgError ''connection refused'') \<and>
   written (fst (seedDatabase fp_example seed_env_all_fail)) =
     [(''users'', 2000), (''products'', 100), (''orders'', 30000), (''reviews'', 10000)] \<and>
   snd (seedDatabase fp_example seed_env_all_fail) = Returned None"
  by (simp add: seedDatabase_returns written_append written_log_if_err
      length_gen_users length_gen_products seed_env_all_fail_def)

subsection \<open>The reviews table\<close>

text \<open>
  C9, as the code has it. The \<^verbatim>\<open>rating\<close> column accepts exactly the non-NULL integers from 0
  to 100. Every rating the program generates (\<^verbatim>\<open>gofakeit.Number(1, 100)\<close>) lies between 1 and
  100 and is accepted.
\<close>

theorem reviews_rating_check_from_zero:
  "rating_accepted v = (\<exists>r. v = Some r \<and> 0 \<le> r \<and> r \<le> 100) \<and>
   1 \<le> Number 1 100 raw \<and> Number 1 100 raw \<le> 100 \<and>
   rating_accepted (Some (Number 1 100 raw))"
proof -
  have a: "rating_accepted w = (\<exists>r. w = Some r \<and> 0 \<le> r \<and> r \<le> 100)" for w
    by (cases w) (simp_all add: rating_accepted_def reviews_table_def column_accepts_def)
  have b: "1 \<le> Number 1 100 raw \<and> Number 1 100 raw \<le> 100"
    by (simp add: Number_def Let_def)
  from b have c: "rating_accepted (Some (Number 1 100 raw))"
    by (simp add: a)
  from a [of v] b c show ?thesis by simp
qed

text \<open>
  C9, as stated, fails: the column accepts the rating 0, which is outside the range from 1
  to 100.
\<close>

theorem reviews_rating_zero_counterexample:
  "rating_accepted (Some 0) \<and> \<not> (1::int) \<le> 0"
  by (simp add: rating_accepted_def reviews_table_def column_accepts_def)

subsection \<open>The seeding endpoints\<close>

text \<open>
  C10. \<^verbatim>\<open>setupDatabase\<close> and \<^verbatim>\<open>seedDatabase\<close> return \<^verbatim>\<open>nil\<close> whatever the store answers;
  so \<^verbatim>\<open>/firstrun\<close> always answers 200 with its success body and \<^verbatim>\<open>/seed\<close> always answers
  201 with its success body.
\<close>

theorem setup_and_seed_always_report_success:
  "snd (setupDatabase senv) = None \<and>
   snd (seedDatabase fp env) = Returned None \<and>
   status_code (handleFirstRun senv) = 200 \<and>
   writes (handleFirstRun senv) = [''Database created successfully''] \<and>
   snd (handleSeedDB fp env) = Returned () \<and>
   status_code (fst (handleSeedDB fp env)) = 201 \<and>
   writes (fst (handleSeedDB fp env)) = [''Database seeded successfully'']"
  by (simp add: setupDatabase_def handleFirstRun_def handleSeedDB_def seedDatabase_returns
      writes_append writes_log_if_err status_code_log_if_err)

theorem setup_and_seed_always_report_success_witness:
  "exec_result setup_env_all_fail CreateReviewsTable = Some (PgError ''connection refused'') \<and>
   s_insert_reviews seed_env_all_fail = Some (PgError ''connection refused'') \<and>
   length (logged_errors (fst (setupDatabase setup_env_all_fail))) = 5 \<and>
   length (logged_errors (fst (seedDatabase fp_example seed_env_all_fail))) = 4 \<and>
   status_code (handleFirstRun setup_env_all_fail) = 200 \<and>
   status_code (fst (handleSeedDB fp_example seed_env_all_fail)) = 201"
  using setup_and_seed_always_report_success [of setup_env_all_fail fp_example seed_env_all_fail]
  by (simp add: setup_env_all_fail_def seed_env_all_fail_def seed_env_example_def
      setupDatabase_def seedDatabase_returns log_if_err_Some err_of_Inl)

end
